theory Spec2Isabelle
  imports Complex_Main
begin

section \<open>Values exchanged with the collaborators\<close>

text \<open>
  JSON values as \<^verbatim>\<open>JSON.parse\<close> produces them. JSON numbers are kept as integers: the
  code below does no arithmetic on them.
\<close>

datatype json =
    JNull
  | JBool bool
  | JNum int
  | JStr string
  | JArr "json list"
  | JObj "(string \<times> json) list"

text \<open>JavaScript truthiness of a JSON value.\<close>

fun truthy :: "json \<Rightarrow> bool" where
  "truthy JNull = False"
| "truthy (JBool b) = b"
| "truthy (JNum n) = (n \<noteq> 0)"
| "truthy (JStr s) = (s \<noteq> [])"
| "truthy (JArr xs) = True"
| "truthy (JObj kvs) = True"

text \<open>
  Every remote call made by a service function is recorded, in order, so that statements
  about which collaborator was contacted can be made.
  \<^item> \<open>OcrCall file\<close>: \<^verbatim>\<open>GlmOcrService.parse({ file })\<close>;
  \<^item> \<open>DetectCall text\<close>: \<^verbatim>\<open>GlmParserService.detectDocumentType(text)\<close>;
  \<^item> \<open>ChatCall content\<close>: \<^verbatim>\<open>GlmParserService.chat([{ role: "user", content }])\<close>
    issued by one of the five extraction functions.
\<close>

datatype Call = OcrCall string | DetectCall string | ChatCall string

section \<open>src/lib/services/glmOcr.ts\<close>

record LayoutDetail =
  index :: int
  label :: string
  bbox_2d :: "int list"
  content :: string
  height :: int
  width :: int

text \<open>\<^verbatim>\<open>LayoutDetail & { page?: number }\<close>\<close>

record PagedLayoutDetail = LayoutDetail +
  page :: "nat option"

text \<open>The fields of \<^verbatim>\<open>GlmOcrResponse\<close> that the code reads;
  \<open>num_pages\<close> is \<^verbatim>\<open>data_info.num_pages\<close>.\<close>

record GlmOcrResponse =
  md_results :: string
  layout_details :: "LayoutDetail list list"
  num_pages :: nat

text \<open>
  \<^verbatim>\<open>layoutDetails.forEach((pageDetails, pageIndex) => pageDetails.forEach((detail) =>
     result.push({ ...detail, page: pageIndex + 1 })))\<close>
\<close>

definition withPage :: "nat \<Rightarrow> LayoutDetail \<Rightarrow> PagedLayoutDetail" where
  "withPage pageIndex detail = LayoutDetail.extend detail \<lparr>page = Some (pageIndex + 1)\<rparr>"

definition normalizeLayoutDetails :: "LayoutDetail list list \<Rightarrow> PagedLayoutDetail list" where
  "normalizeLayoutDetails layoutDetails =
     concat (map (\<lambda>(pageIndex, pageDetails). map (withPage pageIndex) pageDetails)
                 (enumerate 0 layoutDetails))"

text \<open>
  \<^verbatim>\<open>allItems.reduce((sum, item) => sum + item.content.length, 0)\<close>
\<close>

definition totalContentLength :: "LayoutDetail list \<Rightarrow> nat" where
  "totalContentLength allItems = foldl (\<lambda>sum item. sum + length (content item)) 0 allItems"

text \<open>
  \<^verbatim>\<open>calculateConfidence\<close>. The JavaScript number it returns is modelled by the exact
  real number \<^verbatim>\<open>Math.min(100, (totalContentLength / 10) * 2)\<close> denotes.
\<close>

definition calculateConfidence :: "LayoutDetail list list \<Rightarrow> real" where
  "calculateConfidence layoutDetails =
     (let allItems = concat layoutDetails in
      if length allItems = 0 then 0
      else min 100 ((real (totalContentLength allItems) / 10) * 2))"

text \<open>
  The object \<^verbatim>\<open>{ mdResults, layoutDetails, numPages }\<close> stored on a document, and the
  object returned by \<^verbatim>\<open>ocrFromUrl\<close>, which carries \<^verbatim>\<open>confidence\<close> as well.
\<close>

record OcrResult =
  mdResults :: string
  layoutDetails :: "PagedLayoutDetail list"
  numPages :: nat

record OcrOutput = OcrResult +
  confidence :: real

text \<open>
  \<^verbatim>\<open>ocrFromUrl\<close>. Its first argument is the outcome of
  \<^verbatim>\<open>glmOcrService.parseFromUrl(fileUrl)\<close>: \<open>Inl m\<close> when the call rejects with an
  error whose message is \<open>m\<close>, \<open>Inr response\<close> when it resolves. The second component of
  the result lists the remote calls made.
\<close>

definition ocrFromUrl ::
  "(string \<Rightarrow> string + GlmOcrResponse) \<Rightarrow> string \<Rightarrow> (string + OcrOutput) \<times> Call list" where
  "ocrFromUrl parseFromUrl fileUrl =
     (case parseFromUrl fileUrl of
        Inl m \<Rightarrow> (Inl m, [OcrCall fileUrl])
      | Inr response \<Rightarrow>
          (Inr \<lparr>mdResults = md_results response,
                layoutDetails = normalizeLayoutDetails (layout_details response),
                numPages = num_pages response,
                confidence = calculateConfidence (layout_details response)\<rparr>,
           [OcrCall fileUrl]))"

section \<open>The parser service (src/unnamed/part_001)\<close>

text \<open>
  The parser's collaborators, taken as parameters:
  \<^item> \<open>chat content\<close> is the outcome of \<^verbatim>\<open>this.chat([{ role: "user", content }])\<close>:
    \<open>Inl m\<close> when it throws an error with message \<open>m\<close>, \<open>Inr text\<close> when it returns;
  \<^item> \<open>jsonParse\<close> is \<^verbatim>\<open>JSON.parse\<close>, \<open>None\<close> when it throws;
  \<^item> \<open>promptFor t text\<close> is the message content built for document type \<open>t\<close>, that is
    \<^verbatim>\<open>PROMPT_TEMPLATES[t]\<close> followed by the separator line and the OCR text;
  \<^item> \<open>detect text\<close> is the outcome of the chat call and of \<^verbatim>\<open>parseJsonResponse\<close> inside
    \<^verbatim>\<open>detectDocumentType(text)\<close>: \<open>Inl m\<close> when either throws an error with message
    \<open>m\<close>, \<open>Inr t\<close> when they yield a result whose \<^verbatim>\<open>type\<close> property is the string
    \<open>t\<close> (the declared type of that property is \<^verbatim>\<open>DocumentType\<close>, a string; the empty
    string stands for an absent or falsy property).
\<close>

record Parser =
  chat :: "string \<Rightarrow> string + string"
  jsonParse :: "string \<Rightarrow> json option"
  promptFor :: "string \<Rightarrow> string \<Rightarrow> string"
  detect :: "string \<Rightarrow> string + string"

text \<open>
  The match of the regular expression \<^verbatim>\<open>/\{[\s\S]*\}/\<close>: from the first opening brace
  to the last closing brace after it.
\<close>

definition jsonMatch :: "string \<Rightarrow> string option" where
  "jsonMatch response =
     (let fromBrace = dropWhile (\<lambda>c. c \<noteq> CHR ''{'') response;
          matched = rev (dropWhile (\<lambda>c. c \<noteq> CHR ''}'') (rev fromBrace))
      in if matched = [] then None else Some matched)"

text \<open>The message of the error thrown by \<^verbatim>\<open>parseJsonResponse\<close>, in ASCII.\<close>

definition JSON_UNPARSABLE :: string where
  "JSON_UNPARSABLE = ''cannot parse the JSON in the API response''"

definition parseJsonResponse :: "Parser \<Rightarrow> string \<Rightarrow> string + json" where
  "parseJsonResponse p response =
     (case jsonParse p response of
        Some v \<Rightarrow> Inr v
      | None \<Rightarrow>
          (case jsonMatch response of
             Some m \<Rightarrow>
               (case jsonParse p m of
                  Some v \<Rightarrow> Inr v
                | None \<Rightarrow> Inl JSON_UNPARSABLE)
           | None \<Rightarrow> Inl JSON_UNPARSABLE))"

text \<open>
  \<^verbatim>\<open>parseInvoice\<close>, \<^verbatim>\<open>parseCertificate\<close>, \<^verbatim>\<open>parseResume\<close>,
  \<^verbatim>\<open>parseHandwritten\<close> and \<^verbatim>\<open>parseFinancialReport\<close> share one body and differ in the
  template only.
\<close>

definition parseWith :: "Parser \<Rightarrow> string \<Rightarrow> string \<Rightarrow> (string + json) \<times> Call list" where
  "parseWith p template ocrResult =
     (let prompt = promptFor p template ocrResult in
      case chat p prompt of
        Inl m \<Rightarrow> (Inl m, [ChatCall prompt])
      | Inr response \<Rightarrow> (parseJsonResponse p response, [ChatCall prompt]))"

definition parseInvoice :: "Parser \<Rightarrow> string \<Rightarrow> (string + json) \<times> Call list" where
  "parseInvoice p ocrResult = parseWith p ''invoice'' ocrResult"

definition parseCertificate :: "Parser \<Rightarrow> string \<Rightarrow> (string + json) \<times> Call list" where
  "parseCertificate p ocrResult = parseWith p ''certificate'' ocrResult"

definition parseResume :: "Parser \<Rightarrow> string \<Rightarrow> (string + json) \<times> Call list" where
  "parseResume p ocrResult = parseWith p ''resume'' ocrResult"

definition parseHandwritten :: "Parser \<Rightarrow> string \<Rightarrow> (string + json) \<times> Call list" where
  "parseHandwritten p ocrResult = parseWith p ''handwritten'' ocrResult"

definition parseFinancialReport :: "Parser \<Rightarrow> string \<Rightarrow> (string + json) \<times> Call list" where
  "parseFinancialReport p ocrResult = parseWith p ''financial_report'' ocrResult"

text \<open>\<^verbatim>\<open>parseByType\<close>: the \<^verbatim>\<open>switch\<close> on the document type, in the source's order.\<close>

definition parseByType :: "Parser \<Rightarrow> string \<Rightarrow> string \<Rightarrow> (string + json) \<times> Call list" where
  "parseByType p ocrResult documentType =
     (if documentType = ''invoice'' then parseInvoice p ocrResult
      else if documentType = ''certificate'' then parseCertificate p ocrResult
      else if documentType = ''resume'' then parseResume p ocrResult
      else if documentType = ''handwritten'' then parseHandwritten p ocrResult
      else if documentType = ''financial_report'' then parseFinancialReport p ocrResult
      else (Inr JNull, []))"

text \<open>
  \<^verbatim>\<open>detectDocumentType\<close>, reduced to the \<^verbatim>\<open>type\<close> it returns:
  \<^verbatim>\<open>type: result.type || "other"\<close>.
\<close>

definition detectDocumentType :: "Parser \<Rightarrow> string \<Rightarrow> (string + string) \<times> Call list" where
  "detectDocumentType p ocrResult =
     (case detect p ocrResult of
        Inl m \<Rightarrow> (Inl m, [DetectCall ocrResult])
      | Inr t \<Rightarrow> (Inr (if t = [] then ''other'' else t), [DetectCall ocrResult]))"

section \<open>src/models/Document.ts\<close>

datatype DocumentStatus = Processing | Completed | Failed

datatype Stage = StageUpload | StageOcr | StageAiParse | StageDatabase

text \<open>\<^verbatim>\<open>ErrorSchema\<close>\<close>

record DocError =
  message :: string
  code :: "string option"
  stage :: "Stage option"

text \<open>
  \<^verbatim>\<open>MetadataSchema\<close>; dates are points of a clock counted in \<open>nat\<close>, and
  \<open>metaConfidence\<close> is the field \<^verbatim>\<open>confidence\<close>.
\<close>

record Metadata =
  fileSize :: nat
  pageCount :: "nat option"
  metaConfidence :: "real option"
  ocrProcessedAt :: "nat option"
  aiParsedAt :: "nat option"

text \<open>
  \<^verbatim>\<open>DocumentSchema\<close>. An optional field that is \<^verbatim>\<open>undefined\<close> is \<open>None\<close>.
  \<open>documentType\<close> is the string the code compares and stores; \<open>parsedData\<close> is the object
  the field holds once the value assigned has been cast to \<^verbatim>\<open>ParsedDataSchema\<close>. The
  fields the object-document mapper maintains by itself (\<^verbatim>\<open>_id\<close>, \<^verbatim>\<open>createdAt\<close>,
  \<^verbatim>\<open>updatedAt\<close>) are left out.
\<close>

record Document =
  fileName :: string
  fileUrl :: string
  fileType :: string
  documentType :: string
  uploadDate :: nat
  status :: DocumentStatus
  ocrResult :: "OcrResult option"
  parsedData :: "json option"
  metadata :: Metadata
  error :: "DocError option"

text \<open>
  \<^verbatim>\<open>ParsedDataSchema\<close>: its five nested paths, each with its scalar fields and its array
  fields. The schema is strict, so a key it does not declare is dropped when a value is
  assigned; an array field that is not given defaults to the empty array; and a nested
  object left without any field is not stored.
\<close>

definition parsedDataPaths :: "(string \<times> string list \<times> string list) list" where
  "parsedDataPaths =
     [(''invoice'',
       [''invoiceNo'', ''invoiceCode'', ''invoiceDate'', ''amount'', ''taxAmount'',
        ''amountWithoutTax'', ''sellerName'', ''sellerTaxId'', ''buyerName'', ''buyerTaxId''],
       [''items'']),
      (''certificate'',
       [''certName'', ''certNo'', ''certType'', ''issuer'', ''issueDate'', ''expiryDate'',
        ''holderName'', ''idNumber''],
       []),
      (''resume'',
       [''name'', ''phone'', ''email'', ''gender'', ''birthDate'', ''address'', ''summary''],
       [''education'', ''experience'', ''skills'']),
      (''handwritten'',
       [''content'', ''confidence'', ''language'', ''transcribeTime''],
       []),
      (''financialReport'',
       [''reportType'', ''reportPeriod'', ''startDate'', ''endDate'', ''revenue'', ''profit'',
        ''assets'', ''liabilities'', ''equity''],
       [''items''])]"

text \<open>
  What is stored under one nested path for the value \<open>v\<close> given under its key (\<open>None\<close>:
  no value given): the declared fields of \<open>v\<close> when it is an object, then the defaults of
  the array fields not given; nothing when no field is left. The values of the fields are
  kept as they are given: that a value fits the type of its field is \<open>castError\<close> below.
\<close>

definition castNested :: "string list \<Rightarrow> string list \<Rightarrow> json option \<Rightarrow> json option" where
  "castNested scalars arrays v =
     (let given = (case v of Some (JObj fs) \<Rightarrow> fs | _ \<Rightarrow> []);
          kept = filter (\<lambda>kv. fst kv \<in> set (scalars @ arrays)) given;
          defaults = map (\<lambda>a. (a, JArr [])) (filter (\<lambda>a. map_of given a = None) arrays)
      in if kept @ defaults = [] then None else Some (JObj (kept @ defaults)))"

text \<open>The object the field \<^verbatim>\<open>parsedData\<close> holds after \<open>v\<close> has been assigned to it.\<close>

definition castParsedData :: "json \<Rightarrow> json" where
  "castParsedData v =
     (case v of
        JObj kvs \<Rightarrow>
          JObj (concat (map (\<lambda>(k, scalars, arrays).
                               case castNested scalars arrays (map_of kvs k) of
                                 Some nested \<Rightarrow> [(k, nested)]
                               | None \<Rightarrow> [])
                            parsedDataPaths))
      | _ \<Rightarrow> v)"

text \<open>
  The second argument of \<^verbatim>\<open>updateStatus\<close>, an object from which \<^verbatim>\<open>message\<close>,
  \<^verbatim>\<open>code\<close> and \<^verbatim>\<open>stage\<close> are read. An absent \<^verbatim>\<open>message\<close> is the empty string.
\<close>

record ErrorArg =
  argMessage :: string
  argCode :: "string option"
  argStage :: "Stage option"

text \<open>
  The three instance methods, as functions from the document object to the document object
  they leave behind; each ends in \<^verbatim>\<open>this.save()\<close>, which is \<open>save\<close> below and may
  reject.
\<close>

definition updateStatus :: "Document \<Rightarrow> DocumentStatus \<Rightarrow> ErrorArg option \<Rightarrow> Document" where
  "updateStatus this st err =
     (case err of
        Some e \<Rightarrow>
          if st = Failed
          then this\<lparr>status := st,
                    error := Some \<lparr>message = (if argMessage e = [] then ''Unknown error''
                                               else argMessage e),
                                    code = argCode e,
                                    stage = argStage e\<rparr>\<rparr>
          else this\<lparr>status := st, error := None\<rparr>
      | None \<Rightarrow> this\<lparr>status := st, error := None\<rparr>)"

definition updateOcrResult :: "Document \<Rightarrow> OcrResult \<Rightarrow> nat \<Rightarrow> Document" where
  "updateOcrResult this r date =
     this\<lparr>ocrResult := Some r,
          metadata := (metadata this)
            \<lparr>ocrProcessedAt := Some date,
             pageCount := (if numPages r \<noteq> 0 then Some (numPages r)
                           else pageCount (metadata this))\<rparr>\<rparr>"

definition updateParsedData :: "Document \<Rightarrow> json \<Rightarrow> string option \<Rightarrow> nat \<Rightarrow> Document" where
  "updateParsedData this pd dtype date =
     this\<lparr>parsedData := Some (castParsedData pd),
          metadata := (metadata this)\<lparr>aiParsedAt := Some date\<rparr>,
          documentType := (case dtype of
                             Some t \<Rightarrow> if t \<noteq> [] then t else documentType this
                           | None \<Rightarrow> documentType this),
          status := Completed\<rparr>"

section \<open>src/models/AuditLog.ts\<close>

text \<open>
  The fields an entry is created with; \<open>logDocumentId\<close> and \<open>logFileName\<close> are the
  fields \<^verbatim>\<open>documentId\<close> and \<^verbatim>\<open>fileName\<close>.
\<close>

datatype AuditAction =
    ActUpload | ActView | ActUpdate | ActDelete | ActReparse | ActExport
  | ActBatchDelete | ActBatchExport

record AuditLog =
  logDocumentId :: string
  logFileName :: string
  action :: AuditAction
  details :: "json option"
  userId :: "string option"

section \<open>The record store, the audit store and the environment\<close>

text \<open>
  \<^item> \<open>docs\<close>: the document collection, by id;
  \<^item> \<open>auditLogs\<close>: the audit collection, oldest first;
  \<^item> \<open>calls\<close>: the remote calls made so far, oldest first;
  \<^item> \<open>writes\<close>: every state written to the document collection, oldest first;
  \<^item> \<open>files\<close>: the files written to the upload directory (their paths);
  \<^item> \<open>pending\<close>: the ids for which \<^verbatim>\<open>processDocumentAsync\<close> has been started without
    being awaited.
\<close>

record World =
  docs :: "string \<Rightarrow> Document option"
  auditLogs :: "AuditLog list"
  calls :: "Call list"
  writes :: "(string \<times> Document) list"
  files :: "string list"
  pending :: "string list"

text \<open>
  What a run depends on besides the stores:
  \<^item> \<open>dbError\<close>: \<open>Some m\<close> when \<^verbatim>\<open>connectToDatabase()\<close> rejects with message \<open>m\<close>;
    once it has resolved, a read of the document collection resolves, and a write
    resolves unless the document fails the validation of its schema;
  \<^item> \<open>parseFromUrl\<close>: the outcome of \<^verbatim>\<open>glmOcrService.parseFromUrl\<close>;
  \<^item> \<open>parser\<close>: the parser's collaborators;
  \<^item> \<open>auditReject\<close>: \<open>Some m\<close> when \<^verbatim>\<open>AuditLog.create\<close> of that entry rejects with
    message \<open>m\<close>;
  \<^item> \<open>now\<close>: the value of \<^verbatim>\<open>new Date()\<close>;
  \<^item> \<open>castError\<close>: \<open>Some m\<close> when a value held by \<^verbatim>\<open>parsedData\<close> cannot be cast to
    \<^verbatim>\<open>ParsedDataSchema\<close> (a field holds a value that the type declared for it, a string,
    a number or a date, cannot take; or the value is no object at all);
  \<^item> \<open>invalidMessage\<close>: the message of the validation error raised for a document.
\<close>

record Env =
  dbError :: "string option"
  parseFromUrl :: "string \<Rightarrow> string + GlmOcrResponse"
  parser :: Parser
  auditReject :: "AuditLog \<Rightarrow> string option"
  now :: nat
  castError :: "json \<Rightarrow> string option"
  invalidMessage :: "Document \<Rightarrow> string"

text \<open>
  The validation \<^verbatim>\<open>DocumentSchema\<close> and its sub-schemas declare, run by
  \<^verbatim>\<open>save()\<close> and \<^verbatim>\<open>Document.create\<close>: the enumeration of \<^verbatim>\<open>documentType\<close>, the
  required strings (a required string must not be empty), the four elements of
  \<^verbatim>\<open>bbox_2d\<close>, and the cast of \<^verbatim>\<open>parsedData\<close>. The enumerations of \<^verbatim>\<open>status\<close> and
  \<^verbatim>\<open>stage\<close> and the required numbers hold by the types of the record.
\<close>

definition DOCUMENT_TYPES :: "string list" where
  "DOCUMENT_TYPES = [''invoice'', ''certificate'', ''resume'', ''handwritten'',
                     ''financial_report'', ''other'']"

definition validLayoutDetail :: "PagedLayoutDetail \<Rightarrow> bool" where
  "validLayoutDetail item = (label item \<noteq> [] \<and> length (bbox_2d item) = 4 \<and> content item \<noteq> [])"

definition validOcrResult :: "OcrResult \<Rightarrow> bool" where
  "validOcrResult r = (mdResults r \<noteq> [] \<and> list_all validLayoutDetail (layoutDetails r))"

definition validate :: "Env \<Rightarrow> Document \<Rightarrow> bool" where
  "validate env this =
     (fileName this \<noteq> [] \<and> fileUrl this \<noteq> [] \<and> fileType this \<noteq> []
      \<and> documentType this \<in> set DOCUMENT_TYPES
      \<and> (case ocrResult this of None \<Rightarrow> True | Some r \<Rightarrow> validOcrResult r)
      \<and> (case parsedData this of None \<Rightarrow> True | Some pd \<Rightarrow> castError env pd = None)
      \<and> (case error this of None \<Rightarrow> True | Some e \<Rightarrow> message e \<noteq> []))"

text \<open>A write of the record under \<open>documentId\<close>.\<close>

definition store :: "string \<Rightarrow> Document \<Rightarrow> World \<Rightarrow> World" where
  "store documentId this w =
     w\<lparr>docs := (docs w)(documentId \<mapsto> this), writes := writes w @ [(documentId, this)]\<rparr>"

text \<open>
  \<^verbatim>\<open>this.save()\<close> of the document object found under \<open>documentId\<close>, and
  \<^verbatim>\<open>Document.create\<close>: the document is validated, then written; \<open>Inl m\<close> when the
  validation rejects it, and then nothing is written.
\<close>

definition save :: "Env \<Rightarrow> string \<Rightarrow> Document \<Rightarrow> World \<Rightarrow> string + World" where
  "save env documentId this w =
     (if validate env this then Inr (store documentId this w)
      else Inl (invalidMessage env this))"

text \<open>\<^verbatim>\<open>AuditLogSchema.statics.log\<close>: \<open>Inl m\<close> when the write rejects.\<close>

definition entry :: "string \<Rightarrow> string \<Rightarrow> AuditAction \<Rightarrow> json option \<Rightarrow> AuditLog" where
  "entry documentId name act dets =
     \<lparr>logDocumentId = documentId, logFileName = name, action = act, details = dets,
      userId = None\<rparr>"

definition AuditLog_log :: "Env \<Rightarrow> string \<Rightarrow> string \<Rightarrow> AuditAction \<Rightarrow> json option \<Rightarrow> World \<Rightarrow> string + World" where
  "AuditLog_log env documentId name act dets w =
     (case auditReject env (entry documentId name act dets) of
        Some m \<Rightarrow> Inl m
      | None \<Rightarrow> Inr (w\<lparr>auditLogs := auditLogs w @ [entry documentId name act dets]\<rparr>))"

definition called :: "Call list \<Rightarrow> World \<Rightarrow> World" where
  "called cs w = w\<lparr>calls := calls w @ cs\<rparr>"

section \<open>src/app/api/documents/process/route.ts: processDocument\<close>

text \<open>
  The objects \<^verbatim>\<open>processDocument\<close> returns (their texts are not ASCII):
  \<^item> \<open>NotFound\<close>: \<^verbatim>\<open>{ success: false, error: <document does not exist> }\<close>;
  \<^item> \<open>OcrFailure m\<close>: \<^verbatim>\<open>{ success: false, error: <OCR failed: m> }\<close>;
  \<^item> \<open>AiParseFailure m\<close>: \<^verbatim>\<open>{ success: false, error: <AI parse failed: m> }\<close>;
  \<^item> \<open>Processed t\<close>: \<^verbatim>\<open>{ success: true, message: <processed, recognised as t> }\<close>;
  \<^item> \<open>Crashed m\<close>: the object built by the outermost \<^verbatim>\<open>catch\<close> from an error with
    message \<open>m\<close>.
\<close>

datatype ProcessResult =
    NotFound
  | OcrFailure string
  | AiParseFailure string
  | Processed string
  | Crashed string

text \<open>
  The body of the first inner \<^verbatim>\<open>try\<close>. The result is what the block ends with
  (\<open>Inl m\<close>: an error with message \<open>m\<close> was thrown inside it), the document object and
  the stores at that point.
\<close>

definition ocrTry ::
  "Env \<Rightarrow> string \<Rightarrow> Document \<Rightarrow> World \<Rightarrow> (string + OcrOutput) \<times> Document \<times> World" where
  "ocrTry env documentId document w =
     (case ocrFromUrl (parseFromUrl env) (fileUrl document) of
        (Inl m, cs) \<Rightarrow> (Inl m, document, called cs w)
      | (Inr r, cs) \<Rightarrow>
          (let document1 = updateOcrResult document
                             \<lparr>mdResults = mdResults r, layoutDetails = layoutDetails r,
                              numPages = numPages r\<rparr> (now env)
           in case save env documentId document1 (called cs w) of
                Inl m \<Rightarrow> (Inl m, document1, called cs w)
              | Inr w1 \<Rightarrow>
                  (case AuditLog_log env documentId (fileName document1) ActReparse
                          (Some (JObj [(''stage'', JStr ''ocr_completed''),
                                       (''numPages'', JNum (int (numPages r)))])) w1 of
                     Inl m \<Rightarrow> (Inl m, document1, w1)
                   | Inr w2 \<Rightarrow> (Inr r, document1, w2))))"

text \<open>
  The \<^verbatim>\<open>catch\<close> of the first inner \<^verbatim>\<open>try\<close>. An error thrown inside it reaches the
  outermost \<^verbatim>\<open>catch\<close>.
\<close>

definition ocrCatch :: "Env \<Rightarrow> string \<Rightarrow> string \<Rightarrow> Document \<Rightarrow> World \<Rightarrow> ProcessResult \<times> World" where
  "ocrCatch env documentId m document w =
     (let document1 = updateStatus document Failed
                        (Some \<lparr>argMessage = m, argCode = None, argStage = Some StageOcr\<rparr>)
      in case save env documentId document1 w of
           Inl m' \<Rightarrow> (Crashed m', w)
         | Inr w1 \<Rightarrow>
             (case AuditLog_log env documentId (fileName document1) ActReparse
                     (Some (JObj [(''stage'', JStr ''ocr_failed''), (''error'', JStr m)])) w1 of
                Inl m' \<Rightarrow> (Crashed m', w1)
              | Inr w2 \<Rightarrow> (OcrFailure m, w2)))"

text \<open>
  The first statements of the second inner \<^verbatim>\<open>try\<close>: the type the extraction is done
  with.
\<close>

definition resolveType :: "Env \<Rightarrow> Document \<Rightarrow> string \<Rightarrow> (string + string) \<times> Call list" where
  "resolveType env document text =
     (if documentType document = ''other''
      then detectDocumentType (parser env) text
      else (Inr (documentType document), []))"

text \<open>The body of the second inner \<^verbatim>\<open>try\<close>.\<close>

definition aiTry ::
  "Env \<Rightarrow> string \<Rightarrow> Document \<Rightarrow> string \<Rightarrow> World \<Rightarrow> (string + string) \<times> Document \<times> World" where
  "aiTry env documentId document text w =
     (case resolveType env document text of
        (Inl m, cs) \<Rightarrow> (Inl m, document, called cs w)
      | (Inr detectedType, cs) \<Rightarrow>
          (case parseByType (parser env) text detectedType of
             (Inl m, cs') \<Rightarrow> (Inl m, document, called cs' (called cs w))
           | (Inr result, cs') \<Rightarrow>
               (let document1 = updateParsedData document (JObj [(detectedType, result)])
                                  (Some detectedType) (now env)
                in case save env documentId document1 (called cs' (called cs w)) of
                     Inl m \<Rightarrow> (Inl m, document1, called cs' (called cs w))
                   | Inr w1 \<Rightarrow>
                       (case AuditLog_log env documentId (fileName document1) ActReparse
                               (Some (JObj [(''stage'', JStr ''ai_parse_completed''),
                                            (''documentType'', JStr detectedType)])) w1 of
                          Inl m \<Rightarrow> (Inl m, document1, w1)
                        | Inr w2 \<Rightarrow> (Inr detectedType, document1, w2)))))"

text \<open>The \<^verbatim>\<open>catch\<close> of the second inner \<^verbatim>\<open>try\<close>.\<close>

definition aiCatch :: "Env \<Rightarrow> string \<Rightarrow> string \<Rightarrow> Document \<Rightarrow> World \<Rightarrow> ProcessResult \<times> World" where
  "aiCatch env documentId m document w =
     (let document1 = updateStatus document Failed
                        (Some \<lparr>argMessage = m, argCode = None, argStage = Some StageAiParse\<rparr>)
      in case save env documentId document1 w of
           Inl m' \<Rightarrow> (Crashed m', w)
         | Inr w1 \<Rightarrow>
             (case AuditLog_log env documentId (fileName document1) ActReparse
                     (Some (JObj [(''stage'', JStr ''ai_parse_failed''), (''error'', JStr m)])) w1 of
                Inl m' \<Rightarrow> (Crashed m', w1)
              | Inr w2 \<Rightarrow> (AiParseFailure m, w2)))"

definition processDocument :: "Env \<Rightarrow> string \<Rightarrow> World \<Rightarrow> ProcessResult \<times> World" where
  "processDocument env documentId w =
     (case dbError env of
        Some m \<Rightarrow> (Crashed m, w)
      | None \<Rightarrow>
          (case docs w documentId of
             None \<Rightarrow> (NotFound, w)
           | Some document \<Rightarrow>
               (case AuditLog_log env documentId (fileName document) ActReparse
                       (Some (JObj [(''stage'', JStr ''started'')])) w of
                  Inl m \<Rightarrow> (Crashed m, w)
                | Inr w0 \<Rightarrow>
                    (case ocrTry env documentId document w0 of
                       (Inl m, document1, w1) \<Rightarrow> ocrCatch env documentId m document1 w1
                     | (Inr r, document1, w1) \<Rightarrow>
                         (case aiTry env documentId document1 (mdResults r) w1 of
                            (Inl m, document2, w2) \<Rightarrow> aiCatch env documentId m document2 w2
                          | (Inr detectedType, document2, w2) \<Rightarrow>
                              (Processed detectedType, w2))))))"

section \<open>src/unnamed/part_005: processDocumentAsync\<close>

text \<open>
  The pipeline started by an upload. It returns nothing; the result is the stores it leaves.
  Its two \<^verbatim>\<open>catch\<close> clauses have the statements of those of \<^verbatim>\<open>processDocument\<close>
  up to the value returned, so \<open>ocrCatch\<close> and \<open>aiCatch\<close> stand for them. An error
  thrown outside the two inner \<^verbatim>\<open>try\<close> blocks is logged to the console by the outermost
  \<^verbatim>\<open>catch\<close>.
\<close>

definition asyncOcrTry ::
  "Env \<Rightarrow> string \<Rightarrow> Document \<Rightarrow> World \<Rightarrow> (string + OcrOutput) \<times> Document \<times> World" where
  "asyncOcrTry env documentId document w =
     (case ocrFromUrl (parseFromUrl env) (fileUrl document) of
        (Inl m, cs) \<Rightarrow> (Inl m, document, called cs w)
      | (Inr r, cs) \<Rightarrow>
          (let document1 = updateOcrResult document
                             \<lparr>mdResults = mdResults r, layoutDetails = layoutDetails r,
                              numPages = numPages r\<rparr> (now env)
           in case save env documentId document1 (called cs w) of
                Inl m \<Rightarrow> (Inl m, document1, called cs w)
              | Inr w1 \<Rightarrow> (Inr r, document1, w1)))"

definition asyncAiTry ::
  "Env \<Rightarrow> string \<Rightarrow> Document \<Rightarrow> string \<Rightarrow> World \<Rightarrow> (string + string) \<times> Document \<times> World" where
  "asyncAiTry env documentId document text w =
     (case resolveType env document text of
        (Inl m, cs) \<Rightarrow> (Inl m, document, called cs w)
      | (Inr detectedType, cs) \<Rightarrow>
          (case parseByType (parser env) text detectedType of
             (Inl m, cs') \<Rightarrow> (Inl m, document, called cs' (called cs w))
           | (Inr result, cs') \<Rightarrow>
               (let document1 = updateParsedData document (JObj [(detectedType, result)])
                                  (Some detectedType) (now env)
                in case save env documentId document1 (called cs' (called cs w)) of
                     Inl m \<Rightarrow> (Inl m, document1, called cs' (called cs w))
                   | Inr w1 \<Rightarrow> (Inr detectedType, document1, w1))))"

definition processDocumentAsync :: "Env \<Rightarrow> string \<Rightarrow> World \<Rightarrow> World" where
  "processDocumentAsync env documentId w =
     (case docs w documentId of
        None \<Rightarrow> w
      | Some document \<Rightarrow>
          (case asyncOcrTry env documentId document w of
             (Inl m, document1, w1) \<Rightarrow> snd (ocrCatch env documentId m document1 w1)
           | (Inr r, document1, w1) \<Rightarrow>
               (case asyncAiTry env documentId document1 (mdResults r) w1 of
                  (Inl m, document2, w2) \<Rightarrow> snd (aiCatch env documentId m document2 w2)
                | (Inr detectedType, document2, w2) \<Rightarrow> w2)))"

section \<open>src/lib/permission.ts\<close>

record Permissions =
  canUpload :: bool
  canViewDocuments :: bool
  canDeleteDocuments :: bool
  canExportDocuments :: bool
  canReprocessDocuments :: bool
  canViewReports :: bool
  canManageUsers :: bool
  canManageSettings :: bool

text \<open>
  \<^verbatim>\<open>requirePermission\<close>. The first argument is what \<^verbatim>\<open>getUserFromRequest\<close> yields
  (the permissions of the session's user, \<open>None\<close> without a session), the second selects the
  permission key. The result is the status of the response that refuses the request, or
  \<open>None\<close> when the user passes.
\<close>

definition requirePermission :: "Permissions option \<Rightarrow> (Permissions \<Rightarrow> bool) \<Rightarrow> nat option" where
  "requirePermission user permissionKey =
     (case user of
        None \<Rightarrow> Some 401
      | Some permissions \<Rightarrow> if \<not> permissionKey permissions then Some 403 else None)"

section \<open>The upload route (src/unnamed/part_005, src/lib/storage/fileStorage.ts)\<close>

text \<open>
  The settings read from \<^verbatim>\<open>env\<close> (src/unnamed/part_000) and what the upload depends on
  besides: \<open>generateFilename\<close> (it reads the clock and draws a UUID), \<open>pathJoin\<close> (the
  library's \<^verbatim>\<open>path.join\<close>), \<open>writeError\<close> (\<open>Some m\<close> when writing the file rejects) and
  \<open>newId\<close>, the id given to the created record.
\<close>

record Upload =
  maxFileSize :: int
  allowedFileTypes :: "string list"
  uploadDir :: string
  baseUrl :: string
  generateFilename :: "string \<Rightarrow> string"
  pathJoin :: "string \<Rightarrow> string \<Rightarrow> string"
  writeError :: "string option"
  newId :: string

text \<open>The \<^verbatim>\<open>File\<close> of the form: \<^verbatim>\<open>name\<close>, \<^verbatim>\<open>type\<close>, \<^verbatim>\<open>size\<close>.\<close>

record FormFile =
  formName :: string
  formType :: string
  formSize :: nat

text \<open>The form: \<^verbatim>\<open>formData.get("file")\<close> and \<^verbatim>\<open>formData.get("documentType")\<close>.\<close>

record Form =
  formFile :: "FormFile option"
  formDocumentType :: "string option"

definition validateFileType :: "Upload \<Rightarrow> string \<Rightarrow> bool" where
  "validateFileType cfg mimeType = (mimeType \<in> set (allowedFileTypes cfg))"

definition validateFileSize :: "Upload \<Rightarrow> nat \<Rightarrow> bool" where
  "validateFileSize cfg n = (int n \<le> maxFileSize cfg)"

text \<open>\<^verbatim>\<open>saveFile\<close>: the URL of the stored file and the stores, or the error.\<close>

definition saveFile :: "Upload \<Rightarrow> FormFile \<Rightarrow> World \<Rightarrow> string + (string \<times> World)" where
  "saveFile cfg f w =
     (let filename = generateFilename cfg (formName f);
          filePath = pathJoin cfg (uploadDir cfg) filename
      in case writeError cfg of
           Some m \<Rightarrow> Inl m
         | None \<Rightarrow> Inr (baseUrl cfg @ ''/uploads/'' @ filename, w\<lparr>files := files w @ [filePath]\<rparr>))"

text \<open>
  \<^verbatim>\<open>POST\<close> of the upload route. The result is the status of the response and the
  stores. \<^verbatim>\<open>Document.create\<close> validates the record it is given. The pipeline is started
  without being awaited: its id joins \<open>pending\<close>.
\<close>

definition upload_POST :: "Upload \<Rightarrow> Env \<Rightarrow> Permissions option \<Rightarrow> Form \<Rightarrow> World \<Rightarrow> nat \<times> World" where
  "upload_POST cfg env user form w =
     (case requirePermission user canUpload of
        Some refused \<Rightarrow> (refused, w)
      | None \<Rightarrow>
          (case dbError env of
             Some m \<Rightarrow> (500, w)
           | None \<Rightarrow>
               (case formFile form of
                  None \<Rightarrow> (400, w)
                | Some f \<Rightarrow>
                    if \<not> validateFileType cfg (formType f) then (400, w)
                    else if \<not> validateFileSize cfg (formSize f) then (400, w)
                    else
                      (case saveFile cfg f w of
                         Inl m \<Rightarrow> (500, w)
                       | Inr (url, w1) \<Rightarrow>
                           (let document =
                                  \<lparr>fileName = formName f, fileUrl = url, fileType = formType f,
                                   documentType =
                                     (case formDocumentType form of
                                        Some t \<Rightarrow> if t = [] then ''other'' else t
                                      | None \<Rightarrow> ''other''),
                                   uploadDate = now env, status = Processing,
                                   ocrResult = None, parsedData = None,
                                   metadata = \<lparr>fileSize = formSize f, pageCount = None,
                                               metaConfidence = None, ocrProcessedAt = None,
                                               aiParsedAt = None\<rparr>,
                                   error = None\<rparr>
                            in case save env (newId cfg) document w1 of
                                 Inl m \<Rightarrow> (500, w1)
                               | Inr w2 \<Rightarrow>
                                   (case AuditLog_log env (newId cfg) (formName f) ActUpload
                                           (Some (JObj [(''fileSize'', JNum (int (formSize f))),
                                                        (''fileType'', JStr (formType f))])) w2 of
                                      Inl m \<Rightarrow> (500, w2)
                                    | Inr w3 \<Rightarrow>
                                        (201, w3\<lparr>pending := pending w3 @ [newId cfg]\<rparr>)))))))"

section \<open>The document route: PUT (src/app/api/documents/upload/route.ts, second part)\<close>

text \<open>
  The request body: \<open>None\<close> for a key that is \<^verbatim>\<open>undefined\<close>.
\<close>

record Body =
  bodyDocumentType :: "string option"
  bodyParsedData :: "json option"

text \<open>
  \<^verbatim>\<open>{ $set: updates }\<close> applied to the stored record: the keys of \<^verbatim>\<open>allowedUpdates\<close>
  present in the body, and \<^verbatim>\<open>status\<close> and \<^verbatim>\<open>metadata\<close> when the parsed data given is
  truthy. \<^verbatim>\<open>findByIdAndUpdate\<close> casts the parsed data to \<^verbatim>\<open>ParsedDataSchema\<close> and
  runs no validation.
\<close>

definition applyUpdates :: "Document \<Rightarrow> Body \<Rightarrow> nat \<Rightarrow> Document" where
  "applyUpdates document body date =
     (let d1 = (case bodyDocumentType body of
                  Some t \<Rightarrow> document\<lparr>documentType := t\<rparr>
                | None \<Rightarrow> document);
          d2 = (case bodyParsedData body of
                  Some v \<Rightarrow> d1\<lparr>parsedData := Some (castParsedData v)\<rparr>
                | None \<Rightarrow> d1)
      in case bodyParsedData body of
           Some v \<Rightarrow>
             if truthy v
             then d2\<lparr>status := Completed,
                     metadata := (metadata document)\<lparr>aiParsedAt := Some date\<rparr>\<rparr>
             else d2
         | None \<Rightarrow> d2)"

text \<open>
  The \<^verbatim>\<open>updates\<close> object written to the audit entry, abridged to the keys taken from
  the body.
\<close>

definition updatesJson :: "Body \<Rightarrow> json" where
  "updatesJson body =
     JObj ((case bodyDocumentType body of Some t \<Rightarrow> [(''documentType'', JStr t)] | None \<Rightarrow> [])
           @ (case bodyParsedData body of Some v \<Rightarrow> [(''parsedData'', v)] | None \<Rightarrow> []))"

definition document_PUT :: "Env \<Rightarrow> Permissions option \<Rightarrow> string \<Rightarrow> Body \<Rightarrow> World \<Rightarrow> nat \<times> World" where
  "document_PUT env user documentId body w =
     (case requirePermission user canViewDocuments of
        Some refused \<Rightarrow> (refused, w)
      | None \<Rightarrow>
          (case dbError env of
             Some m \<Rightarrow> (500, w)
           | None \<Rightarrow>
               (case docs w documentId of
                  None \<Rightarrow> (404, w)
                | Some document \<Rightarrow>
                    (case (case bodyParsedData body of
                             Some v \<Rightarrow> castError env (castParsedData v)
                           | None \<Rightarrow> None) of
                       Some m \<Rightarrow> (500, w)
                     | None \<Rightarrow>
                         (let w1 = store documentId (applyUpdates document body (now env)) w
                          in case AuditLog_log env documentId (fileName document) ActUpdate
                                    (Some (JObj [(''updates'', updatesJson body)])) w1 of
                               Inl m \<Rightarrow> (500, w1)
                             | Inr w2 \<Rightarrow> (200, w2))))))"

section \<open>The properties stated of a record\<close>



text \<open>The audit entries written by the two \<^verbatim>\<open>catch\<close> clauses of a pipeline.\<close>

definition failureEntry :: "AuditLog \<Rightarrow> bool" where
  "failureEntry e =
     (case details e of
        Some (JObj ((k, JStr s) # rest)) \<Rightarrow>
          k = ''stage'' \<and> (s = ''ocr_failed'' \<or> s = ''ai_parse_failed'')
      | _ \<Rightarrow> False)"



section \<open>Example data\<close>

definition exampleItem :: "string \<Rightarrow> LayoutDetail" where
  "exampleItem s = \<lparr>index = 0, label = ''text'', bbox_2d = [0, 0, 10, 10], content = s,
                    height = 10, width = 10\<rparr>"

definition okResponse :: GlmOcrResponse where
  "okResponse = \<lparr>md_results = ''Invoice No: 123, Amount: 500'',
                  layout_details = [], num_pages = 1\<rparr>"

definition invoiceFields :: json where
  "invoiceFields = JObj [(''invoiceNo'', JStr ''123''), (''amount'', JNum 500)]"

definition okParser :: Parser where
  "okParser = \<lparr>chat = (\<lambda>prompt. Inr ''{}''), jsonParse = (\<lambda>text. Some invoiceFields),
                promptFor = (\<lambda>t text. t @ text), detect = (\<lambda>text. Inr ''invoice'')\<rparr>"

definition okEnv :: Env where
  "okEnv = \<lparr>dbError = None, parseFromUrl = (\<lambda>url. Inr okResponse), parser = okParser,
             auditReject = (\<lambda>e. None), now = 7, castError = (\<lambda>pd. None),
             invalidMessage = (\<lambda>d. ''Document validation failed'')\<rparr>"

definition otherEnv :: Env where
  "otherEnv = okEnv\<lparr>parser := okParser\<lparr>detect := (\<lambda>text. Inr ''other'')\<rparr>\<rparr>"

definition ocrDownEnv :: Env where
  "ocrDownEnv = okEnv\<lparr>parseFromUrl := (\<lambda>url. Inl ''timeout of 120000ms exceeded'')\<rparr>"

definition chatDownEnv :: Env where
  "chatDownEnv = okEnv\<lparr>parser := okParser\<lparr>chat := (\<lambda>prompt. Inl ''busy'')\<rparr>\<rparr>"

definition auditDownEnv :: Env where
  "auditDownEnv = okEnv\<lparr>auditReject := (\<lambda>e. Some ''audit store down'')\<rparr>"

definition failureAuditDownEnv :: Env where
  "failureAuditDownEnv =
     ocrDownEnv\<lparr>auditReject := (\<lambda>e. if failureEntry e then Some ''audit store down''
                                     else None)\<rparr>"

definition freshDoc :: Document where
  "freshDoc = \<lparr>fileName = ''a.pdf'', fileUrl = ''http://h/uploads/a.pdf'',
                fileType = ''application/pdf'', documentType = ''other'', uploadDate = 1,
                status = Processing, ocrResult = None, parsedData = None,
                metadata = \<lparr>fileSize = 100, pageCount = None, metaConfidence = None,
                            ocrProcessedAt = None, aiParsedAt = None\<rparr>,
                error = None\<rparr>"

definition failedDoc :: Document where
  "failedDoc = freshDoc\<lparr>status := Failed,
                 error := Some \<lparr>message = ''timeout'', code = None, stage = Some StageOcr\<rparr>\<rparr>"

definition completedDoc :: Document where
  "completedDoc = freshDoc\<lparr>documentType := ''invoice'', status := Completed,
                    ocrResult := Some \<lparr>mdResults = ''Invoice No: 123, Amount: 500'',
                                       layoutDetails = [], numPages = 1\<rparr>,
                    parsedData := Some (JObj [(''invoice'', invoiceFields)])\<rparr>"

definition worldWith :: "Document \<Rightarrow> World" where
  "worldWith d = \<lparr>docs = [''d1'' \<mapsto> d], auditLogs = [], calls = [], writes = [],
                  files = [], pending = []\<rparr>"

definition exampleUpload :: Upload where
  "exampleUpload = \<lparr>maxFileSize = 10485760,
                     allowedFileTypes = [''image/png'', ''image/jpeg'', ''image/jpg'',
                                         ''application/pdf''],
                     uploadDir = ''./public/uploads'', baseUrl = ''http://localhost:3000'',
                     generateFilename = (\<lambda>name. name),
                     pathJoin = (\<lambda>dir name. dir @ ''/'' @ name), writeError = None,
                     newId = ''d2''\<rparr>"

text \<open>\<^verbatim>\<open>ROLE_PERMISSIONS.admin\<close> and \<^verbatim>\<open>ROLE_PERMISSIONS.guest\<close>.\<close>

definition admin :: Permissions where
  "admin = \<lparr>canUpload = True, canViewDocuments = True, canDeleteDocuments = True,
             canExportDocuments = True, canReprocessDocuments = True, canViewReports = True,
             canManageUsers = True, canManageSettings = True\<rparr>"

definition guest :: Permissions where
  "guest = \<lparr>canUpload = False, canViewDocuments = True, canDeleteDocuments = False,
             canExportDocuments = False, canReprocessDocuments = False, canViewReports = True,
             canManageUsers = False, canManageSettings = False\<rparr>"

definition exeForm :: Form where
  "exeForm = \<lparr>formFile = Some \<lparr>formName = ''a.exe'', formType = ''application/x-msdownload'',
                                  formSize = 10\<rparr>,
               formDocumentType = None\<rparr>"

definition hugeForm :: Form where
  "hugeForm = \<lparr>formFile = Some \<lparr>formName = ''a.pdf'', formType = ''application/pdf'',
                                   formSize = 10485761\<rparr>,
                formDocumentType = Some ''invoice''\<rparr>"

section \<open>Unfolding rules and auxiliary facts\<close>

lemmas service_defs =
  ocrFromUrl_def normalizeLayoutDetails_def calculateConfidence_def totalContentLength_def
  withPage_def parseByType_def parseInvoice_def parseCertificate_def parseResume_def
  parseHandwritten_def parseFinancialReport_def parseWith_def parseJsonResponse_def
  jsonMatch_def detectDocumentType_def

lemmas schema_defs =
  parsedDataPaths_def castNested_def castParsedData_def DOCUMENT_TYPES_def
  validLayoutDetail_def validOcrResult_def validate_def

lemmas model_defs =
  updateStatus_def updateOcrResult_def updateParsedData_def store_def save_def
  AuditLog_log_def entry_def called_def

lemmas pipeline_defs =
  processDocument_def ocrTry_def ocrCatch_def aiTry_def aiCatch_def resolveType_def
  processDocumentAsync_def asyncOcrTry_def asyncAiTry_def

lemmas route_defs =
  requirePermission_def validateFileType_def validateFileSize_def saveFile_def
  upload_POST_def applyUpdates_def updatesJson_def document_PUT_def

lemmas example_defs =
  exampleItem_def okResponse_def invoiceFields_def okParser_def okEnv_def otherEnv_def
  ocrDownEnv_def chatDownEnv_def auditDownEnv_def failureAuditDownEnv_def freshDoc_def
  failedDoc_def completedDoc_def worldWith_def exampleUpload_def admin_def guest_def
  exeForm_def hugeForm_def

lemma ocrFromUrl_Inl: "f u = Inl m \<Longrightarrow> ocrFromUrl f u = (Inl m, [OcrCall u])"
  by (simp add: ocrFromUrl_def)



lemma totalContentLength_Nil: "totalContentLength [] = 0"
  by (simp add: totalContentLength_def)

lemma calculateConfidence_closed:
  "calculateConfidence ls = min 100 (real (totalContentLength (concat ls)) / 5)"
proof (cases "concat ls = []")
  case True
  have "totalContentLength (concat ls) = 0"
    unfolding True by (rule totalContentLength_Nil)
  with True show ?thesis by (simp add: calculateConfidence_def)
next
  case False
  then have "length (concat ls) \<noteq> 0" by (simp only: length_0_conv not_False_eq_True)
  then show ?thesis unfolding calculateConfidence_def Let_def by (simp only: if_False)
qed

lemma validate_updateStatus_Failed:
  "validate env (updateStatus d Failed
                   (Some \<lparr>argMessage = m, argCode = c, argStage = s\<rparr>))
     = validate env (d\<lparr>error := None\<rparr>)"
  by (simp add: validate_def updateStatus_def)

lemma validate_error_None: "validate env d \<Longrightarrow> validate env (d\<lparr>error := None\<rparr>)"
  by (simp add: validate_def)

lemma validate_auditReject [simp]: "validate (env\<lparr>auditReject := r\<rparr>) d = validate env d"
  by (simp add: validate_def cong: option.case_cong)

lemma save_auditReject [simp]: "save (env\<lparr>auditReject := r\<rparr>) i d w = save env i d w"
  by (simp add: save_def)

lemma ocrCatch_world:
  assumes "validate env (d\<lparr>error := None\<rparr>)"
  shows "docs (snd (ocrCatch env i m d w)) i
     = Some (updateStatus d Failed
               (Some \<lparr>argMessage = m, argCode = None, argStage = Some StageOcr\<rparr>))
   \<and> writes (snd (ocrCatch env i m d w))
     = writes w @ [(i, updateStatus d Failed
               (Some \<lparr>argMessage = m, argCode = None, argStage = Some StageOcr\<rparr>))]
   \<and> calls (snd (ocrCatch env i m d w)) = calls w"
  using assms
  by (auto simp: ocrCatch_def Let_def save_def store_def AuditLog_log_def
                 validate_updateStatus_Failed
           split: option.splits)



lemma ocrCatch_audited:
  assumes "validate env (d\<lparr>error := None\<rparr>)"
    and "auditReject env (entry i (fileName d) ActReparse
             (Some (JObj [(''stage'', JStr ''ocr_failed''), (''error'', JStr m)]))) = None"
  shows "fst (ocrCatch env i m d w) = OcrFailure m
       \<and> auditLogs (snd (ocrCatch env i m d w))
         = auditLogs w @ [entry i (fileName d) ActReparse
             (Some (JObj [(''stage'', JStr ''ocr_failed''), (''error'', JStr m)]))]"
  using assms
  by (simp add: ocrCatch_def Let_def save_def store_def AuditLog_log_def updateStatus_def
                validate_updateStatus_Failed [unfolded updateStatus_def, simplified])



lemma ocrCatch_audit_irrelevant:
  "docs (snd (ocrCatch env i m d w)) = docs (snd (ocrCatch (env\<lparr>auditReject := r\<rparr>) i m d w))
   \<and> writes (snd (ocrCatch env i m d w))
     = writes (snd (ocrCatch (env\<lparr>auditReject := r\<rparr>) i m d w))
   \<and> calls (snd (ocrCatch env i m d w))
     = calls (snd (ocrCatch (env\<lparr>auditReject := r\<rparr>) i m d w))"
  by (auto simp: ocrCatch_def Let_def save_def store_def AuditLog_log_def
           split: option.splits)

lemma aiCatch_audit_irrelevant:
  "docs (snd (aiCatch env i m d w)) = docs (snd (aiCatch (env\<lparr>auditReject := r\<rparr>) i m d w))
   \<and> writes (snd (aiCatch env i m d w))
     = writes (snd (aiCatch (env\<lparr>auditReject := r\<rparr>) i m d w))
   \<and> calls (snd (aiCatch env i m d w))
     = calls (snd (aiCatch (env\<lparr>auditReject := r\<rparr>) i m d w))"
  by (auto simp: aiCatch_def Let_def save_def store_def AuditLog_log_def
           split: option.splits)

lemma progress_entries_not_failure:
  "\<not> failureEntry (entry i n a (Some (JObj [(''stage'', JStr ''started'')])))"
  "\<not> failureEntry (entry i n a (Some (JObj [(''stage'', JStr ''ocr_completed''), x])))"
  "\<not> failureEntry (entry i n a (Some (JObj [(''stage'', JStr ''ai_parse_completed''), y])))"
  by (simp_all add: failureEntry_def entry_def)

lemma ocrTry_progress_accepted:
  assumes "\<forall>e. auditReject env e \<noteq> None \<longrightarrow> failureEntry e"
  shows "ocrTry (env\<lparr>auditReject := (\<lambda>e. None)\<rparr>) i d w = ocrTry env i d w"
proof -
  have "auditReject env (entry i n a (Some (JObj [(''stage'', JStr ''ocr_completed''), x])))
          = None" for n a x
    using assms progress_entries_not_failure(2) [of i n a x] by blast
  then show ?thesis
    by (simp add: ocrTry_def AuditLog_log_def Let_def updateOcrResult_def
             split: prod.splits sum.splits)
qed

lemma aiTry_progress_accepted:
  assumes "\<forall>e. auditReject env e \<noteq> None \<longrightarrow> failureEntry e"
  shows "aiTry (env\<lparr>auditReject := (\<lambda>e. None)\<rparr>) i d s w = aiTry env i d s w"
proof -
  have "auditReject env (entry i n a (Some (JObj [(''stage'', JStr ''ai_parse_completed''), x])))
          = None" for n a x
    using assms progress_entries_not_failure(3) [of i n a x] by blast
  then show ?thesis
    by (simp add: aiTry_def AuditLog_log_def Let_def updateParsedData_def resolveType_def
             split: prod.splits sum.splits)
qed

lemma processDocument_failure_audit_irrelevant:
  assumes "\<forall>e. auditReject env e \<noteq> None \<longrightarrow> failureEntry e"
  shows "docs (snd (processDocument env i w))
           = docs (snd (processDocument (env\<lparr>auditReject := (\<lambda>e. None)\<rparr>) i w))
       \<and> writes (snd (processDocument env i w))
           = writes (snd (processDocument (env\<lparr>auditReject := (\<lambda>e. None)\<rparr>) i w))
       \<and> calls (snd (processDocument env i w))
           = calls (snd (processDocument (env\<lparr>auditReject := (\<lambda>e. None)\<rparr>) i w))"
proof -
  have started: "auditReject env (entry i n a (Some (JObj [(''stage'', JStr ''started'')])))
          = None" for n a
    using assms progress_entries_not_failure(1) [of i n a] by blast
  show ?thesis
    using ocrCatch_audit_irrelevant [of env i _ _ _ "\<lambda>e. None"]
          aiCatch_audit_irrelevant [of env i _ _ _ "\<lambda>e. None"]
    by (auto simp: processDocument_def ocrTry_progress_accepted [OF assms]
                   aiTry_progress_accepted [OF assms] AuditLog_log_def started
             split: option.splits prod.splits sum.splits)
qed

lemma async_tries_audit_irrelevant:
  "asyncOcrTry (env\<lparr>auditReject := r\<rparr>) i d w = asyncOcrTry env i d w"
  "asyncAiTry (env\<lparr>auditReject := r\<rparr>) i d s w = asyncAiTry env i d s w"
  by (simp_all add: asyncOcrTry_def asyncAiTry_def resolveType_def Let_def
               split: prod.splits sum.splits)

lemma processDocumentAsync_audit_irrelevant:
  "docs (processDocumentAsync env i w)
     = docs (processDocumentAsync (env\<lparr>auditReject := (\<lambda>e. None)\<rparr>) i w)
   \<and> writes (processDocumentAsync env i w)
     = writes (processDocumentAsync (env\<lparr>auditReject := (\<lambda>e. None)\<rparr>) i w)
   \<and> calls (processDocumentAsync env i w)
     = calls (processDocumentAsync (env\<lparr>auditReject := (\<lambda>e. None)\<rparr>) i w)"
  using ocrCatch_audit_irrelevant [of env i _ _ _ "\<lambda>e. None"]
        aiCatch_audit_irrelevant [of env i _ _ _ "\<lambda>e. None"]
  by (auto simp: processDocumentAsync_def async_tries_audit_irrelevant
           split: option.splits prod.splits sum.splits)







lemma status_updateParsedData [simp]: "status (updateParsedData d pd t date) = Completed"
  by (simp add: updateParsedData_def)






lemma documentType_updateOcrResult [simp]:
  "documentType (updateOcrResult d r date) = documentType d"
  by (simp add: updateOcrResult_def)

lemma documentType_updateStatus [simp]:
  "documentType (updateStatus d st e) = documentType d"
  by (simp add: updateStatus_def split: option.splits)




lemma status_updateStatus_Failed [simp]: "status (updateStatus d Failed e) = Failed"
  by (simp add: updateStatus_def split: option.splits)

























section \<open>The claims\<close>

text \<open>
  C1 (defect of the code). The claim: the \<open>error\<close> field of a record is present if and only
  if its status is \<open>failed\<close>; an operation that sets the status to \<open>completed\<close> leaves no
  error present. \<open>updateStatus\<close> clears the error whenever it sets a status other than
  \<open>failed\<close>, but \<open>updateParsedData\<close> sets \<open>completed\<close> and leaves the error as it was. The
  theorem runs \<open>processDocument\<close> on a record that failed earlier, with every call
  succeeding: the record ends \<open>completed\<close> and still carries the error of the earlier run.
\<close>

theorem reprocess_success_keeps_stale_error:
  "docs (snd (processDocument okEnv ''d1'' (worldWith failedDoc))) ''d1''
     = Some (updateParsedData
               (updateOcrResult failedDoc
                  \<lparr>mdResults = ''Invoice No: 123, Amount: 500'', layoutDetails = [],
                   numPages = 1\<rparr> 7)
               (JObj [(''invoice'', invoiceFields)]) (Some ''invoice'') 7)
   \<and> status (updateParsedData
               (updateOcrResult failedDoc
                  \<lparr>mdResults = ''Invoice No: 123, Amount: 500'', layoutDetails = [],
                   numPages = 1\<rparr> 7)
               (JObj [(''invoice'', invoiceFields)]) (Some ''invoice'') 7) = Completed
   \<and> error (updateParsedData
               (updateOcrResult failedDoc
                  \<lparr>mdResults = ''Invoice No: 123, Amount: 500'', layoutDetails = [],
                   numPages = 1\<rparr> 7)
               (JObj [(''invoice'', invoiceFields)]) (Some ''invoice'') 7)
       = Some \<lparr>message = ''timeout'', code = None, stage = Some StageOcr\<rparr>"
  by (simp add: pipeline_defs model_defs schema_defs service_defs example_defs Let_def)

text \<open>
  C9. For every OCR text, \<open>parseByType\<close> called with a document type that is none of
  \<open>invoice\<close>, \<open>certificate\<close>, \<open>resume\<close>, \<open>handwritten\<close>, \<open>financial_report\<close> (the type
  \<open>other\<close> among them) returns \<open>null\<close> and makes no remote call.
\<close>

theorem parseByType_unknown_type:
  "t \<notin> {''invoice'', ''certificate'', ''resume'', ''handwritten'', ''financial_report''}
   \<Longrightarrow> parseByType p ocrText t = (Inr JNull, [])"
  by (simp add: parseByType_def)

theorem parseByType_unknown_type_witness:
  "parseByType okParser ''Invoice No: 123, Amount: 500'' ''other'' = (Inr JNull, [])"
  using parseByType_unknown_type [of "''other''" okParser "''Invoice No: 123, Amount: 500''"]
  by simp

text \<open>
  C10. For every list of pages of layout items, \<open>calculateConfidence\<close> returns a value
  between 0 and 100; it returns 0 when there is no layout item; and it does not decrease
  when the total content length of the items grows.
\<close>

theorem calculateConfidence_bounded_monotone:
  "0 \<le> calculateConfidence ls
   \<and> calculateConfidence ls \<le> 100
   \<and> (concat ls = [] \<longrightarrow> calculateConfidence ls = 0)
   \<and> (totalContentLength (concat ls) \<le> totalContentLength (concat ls')
        \<longrightarrow> calculateConfidence ls \<le> calculateConfidence ls')"
proof (intro conjI impI)
  show "0 \<le> calculateConfidence ls"
    by (simp add: calculateConfidence_closed)
  show "calculateConfidence ls \<le> 100"
    by (simp add: calculateConfidence_closed)
  show "calculateConfidence ls = 0" if "concat ls = []"
    unfolding calculateConfidence_def Let_def that by simp
  show "calculateConfidence ls \<le> calculateConfidence ls'"
    if "totalContentLength (concat ls) \<le> totalContentLength (concat ls')"
  proof -
    from that have "real (totalContentLength (concat ls)) / 5
                    \<le> real (totalContentLength (concat ls')) / 5"
      by (simp add: divide_right_mono)
    then show ?thesis
      unfolding calculateConfidence_closed by (rule min.mono [OF order_refl])
  qed
qed

theorem calculateConfidence_bounded_monotone_witness:
  "concat ([] :: LayoutDetail list list) = []
   \<and> calculateConfidence [] = 0
   \<and> totalContentLength (concat [ [exampleItem ''abc''] ])
       \<le> totalContentLength (concat [ [exampleItem ''abcde''], [exampleItem ''fg''] ])
   \<and> calculateConfidence [ [exampleItem ''abc''] ]
       \<le> calculateConfidence [ [exampleItem ''abcde''], [exampleItem ''fg''] ]"
  using calculateConfidence_bounded_monotone [of "[]" "[]"]
        calculateConfidence_bounded_monotone
          [of "[ [exampleItem ''abc''] ]" "[ [exampleItem ''abcde''], [exampleItem ''fg''] ]"]
  by (simp add: totalContentLength_def exampleItem_def)

text \<open>
  C3, as stated, fails: when \<open>processDocument\<close> is run again on a record that already
  holds an OCR result and parsed data and the OCR call fails, both stay set.
\<close>

theorem ocr_failure_keeps_earlier_results_counterexample:
  "docs (snd (processDocument ocrDownEnv ''d1'' (worldWith completedDoc))) ''d1''
     = Some (updateStatus completedDoc Failed
               (Some \<lparr>argMessage = ''timeout of 120000ms exceeded'', argCode = None,
                      argStage = Some StageOcr\<rparr>))
   \<and> ocrResult (updateStatus completedDoc Failed
               (Some \<lparr>argMessage = ''timeout of 120000ms exceeded'', argCode = None,
                      argStage = Some StageOcr\<rparr>))
       = Some \<lparr>mdResults = ''Invoice No: 123, Amount: 500'', layoutDetails = [],
                numPages = 1\<rparr>
   \<and> parsedData (updateStatus completedDoc Failed
               (Some \<lparr>argMessage = ''timeout of 120000ms exceeded'', argCode = None,
                      argStage = Some StageOcr\<rparr>))
       = Some (JObj [(''invoice'', invoiceFields)])"
  by (simp add: pipeline_defs model_defs schema_defs service_defs example_defs Let_def)

text \<open>
  C3 (amended). When the OCR call of a run on a record that satisfies its schema fails with
  message \<open>m\<close>, the record is written once, as \<open>updateStatus\<close> leaves it: \<open>parsedData\<close> and \<open>ocrResult\<close> are what they were before
  the run (unset if they were unset), the status is \<open>failed\<close>, the error has stage \<open>ocr\<close>
  and message \<open>m\<close> (\<open>Unknown error\<close> when \<open>m\<close> is empty). The OCR call is the only remote
  call of the run. When the write of the \<open>ocr_failed\<close> audit entry is accepted, that entry is
  appended to the audit log. For \<open>processDocument\<close> this supposes that the database
  connection and the \<open>started\<close> audit entry succeeded; \<open>processDocumentAsync\<close> has neither.
\<close>

theorem ocr_failure_marks_failed:
  assumes "docs w i = Some d" and "parseFromUrl env (fileUrl d) = Inl m"
    and "validate env d"
  shows "parsedData (updateStatus d Failed
               (Some \<lparr>argMessage = m, argCode = None, argStage = Some StageOcr\<rparr>))
           = parsedData d
       \<and> ocrResult (updateStatus d Failed
               (Some \<lparr>argMessage = m, argCode = None, argStage = Some StageOcr\<rparr>))
           = ocrResult d
       \<and> status (updateStatus d Failed
               (Some \<lparr>argMessage = m, argCode = None, argStage = Some StageOcr\<rparr>))
           = Failed
       \<and> error (updateStatus d Failed
               (Some \<lparr>argMessage = m, argCode = None, argStage = Some StageOcr\<rparr>))
           = Some \<lparr>message = (if m = [] then ''Unknown error'' else m), code = None,
                    stage = Some StageOcr\<rparr>
       \<and> (dbError env = None
            \<and> auditReject env (entry i (fileName d) ActReparse
                  (Some (JObj [(''stage'', JStr ''started'')]))) = None \<longrightarrow>
           docs (snd (processDocument env i w)) i
             = Some (updateStatus d Failed
                 (Some \<lparr>argMessage = m, argCode = None, argStage = Some StageOcr\<rparr>))
           \<and> writes (snd (processDocument env i w))
             = writes w @ [(i, updateStatus d Failed
                 (Some \<lparr>argMessage = m, argCode = None, argStage = Some StageOcr\<rparr>))]
           \<and> calls (snd (processDocument env i w)) = calls w @ [OcrCall (fileUrl d)]
           \<and> (auditReject env (entry i (fileName d) ActReparse
                  (Some (JObj [(''stage'', JStr ''ocr_failed''), (''error'', JStr m)]))) = None
                \<longrightarrow> fst (processDocument env i w) = OcrFailure m
                  \<and> auditLogs (snd (processDocument env i w))
                    = auditLogs w
                      @ [entry i (fileName d) ActReparse
                           (Some (JObj [(''stage'', JStr ''started'')])),
                         entry i (fileName d) ActReparse
                           (Some (JObj [(''stage'', JStr ''ocr_failed''),
                                        (''error'', JStr m)]))]))
       \<and> docs (processDocumentAsync env i w) i
             = Some (updateStatus d Failed
                 (Some \<lparr>argMessage = m, argCode = None, argStage = Some StageOcr\<rparr>))
       \<and> writes (processDocumentAsync env i w)
             = writes w @ [(i, updateStatus d Failed
                 (Some \<lparr>argMessage = m, argCode = None, argStage = Some StageOcr\<rparr>))]
       \<and> calls (processDocumentAsync env i w) = calls w @ [OcrCall (fileUrl d)]
       \<and> (auditReject env (entry i (fileName d) ActReparse
                  (Some (JObj [(''stage'', JStr ''ocr_failed''), (''error'', JStr m)]))) = None
            \<longrightarrow> auditLogs (processDocumentAsync env i w)
                  = auditLogs w
                    @ [entry i (fileName d) ActReparse
                         (Some (JObj [(''stage'', JStr ''ocr_failed''),
                                      (''error'', JStr m)]))])"
proof -
  let ?e = "Some \<lparr>argMessage = m, argCode = None, argStage = Some StageOcr\<rparr>"
  have fields: "parsedData (updateStatus d Failed ?e) = parsedData d"
    "ocrResult (updateStatus d Failed ?e) = ocrResult d"
    "status (updateStatus d Failed ?e) = Failed"
    "error (updateStatus d Failed ?e)
       = Some \<lparr>message = (if m = [] then ''Unknown error'' else m), code = None,
                stage = Some StageOcr\<rparr>"
    by (simp_all add: updateStatus_def)
  note v = validate_error_None [OF assms(3)]
  have async: "processDocumentAsync env i w
                 = snd (ocrCatch env i m d (called [OcrCall (fileUrl d)] w))"
    using assms by (simp add: processDocumentAsync_def asyncOcrTry_def ocrFromUrl_Inl)
  have sync: "processDocument env i w
                = ocrCatch env i m d
                    (called [OcrCall (fileUrl d)]
                       (w\<lparr>auditLogs := auditLogs w @ [entry i (fileName d) ActReparse
                             (Some (JObj [(''stage'', JStr ''started'')]))]\<rparr>))"
    if "dbError env = None"
       "auditReject env (entry i (fileName d) ActReparse
                  (Some (JObj [(''stage'', JStr ''started'')]))) = None"
    using assms that
    by (simp add: processDocument_def ocrTry_def ocrFromUrl_Inl AuditLog_log_def)
  show ?thesis
    using fields
    by (auto simp: async sync ocrCatch_world [OF v] ocrCatch_audited [OF v] called_def)
qed

theorem ocr_failure_marks_failed_witness:
  "docs (worldWith freshDoc) ''d1'' = Some freshDoc
   \<and> parseFromUrl ocrDownEnv (fileUrl freshDoc) = Inl ''timeout of 120000ms exceeded''
   \<and> dbError ocrDownEnv = None
   \<and> fst (processDocument ocrDownEnv ''d1'' (worldWith freshDoc))
       = OcrFailure ''timeout of 120000ms exceeded''
   \<and> calls (snd (processDocument ocrDownEnv ''d1'' (worldWith freshDoc)))
       = [OcrCall ''http://h/uploads/a.pdf'']
   \<and> calls (processDocumentAsync ocrDownEnv ''d1'' (worldWith freshDoc))
       = [OcrCall ''http://h/uploads/a.pdf'']
   \<and> docs (processDocumentAsync ocrDownEnv ''d1'' (worldWith freshDoc)) ''d1''
       = Some (freshDoc\<lparr>status := Failed,
                 error := Some \<lparr>message = ''timeout of 120000ms exceeded'', code = None,
                                 stage = Some StageOcr\<rparr>\<rparr>)"
proof -
  have h1: "docs (worldWith freshDoc) ''d1'' = Some freshDoc"
    by (simp add: worldWith_def)
  have h2: "parseFromUrl ocrDownEnv (fileUrl freshDoc) = Inl ''timeout of 120000ms exceeded''"
    by (simp add: ocrDownEnv_def okEnv_def)
  have h3: "dbError ocrDownEnv = None" "auditReject ocrDownEnv e = None" for e
    by (simp_all add: ocrDownEnv_def okEnv_def)
  have h4: "validate ocrDownEnv freshDoc"
    by (simp add: schema_defs freshDoc_def ocrDownEnv_def okEnv_def)
  show ?thesis
    using ocr_failure_marks_failed [OF h1 h2 h4] h1 h2 h3
    by (simp add: worldWith_def freshDoc_def updateStatus_def)
qed



text \<open>
  C7, as stated, fails: with an audit store that rejects every write, \<open>processDocument\<close>
  stops at its first audit entry and leaves the record in \<open>processing\<close>, where the same run
  with a working audit store ends \<open>completed\<close>.
\<close>

theorem audit_failure_stops_pipeline_counterexample:
  "docs (snd (processDocument auditDownEnv ''d1'' (worldWith freshDoc))) ''d1'' = Some freshDoc
   \<and> status freshDoc = Processing
   \<and> docs (snd (processDocument okEnv ''d1'' (worldWith freshDoc))) ''d1''
       = Some (updateParsedData
                 (updateOcrResult freshDoc
                    \<lparr>mdResults = ''Invoice No: 123, Amount: 500'', layoutDetails = [],
                     numPages = 1\<rparr> 7)
                 (JObj [(''invoice'', invoiceFields)]) (Some ''invoice'') 7)
   \<and> status (updateParsedData
                 (updateOcrResult freshDoc
                    \<lparr>mdResults = ''Invoice No: 123, Amount: 500'', layoutDetails = [],
                     numPages = 1\<rparr> 7)
                 (JObj [(''invoice'', invoiceFields)]) (Some ''invoice'') 7) = Completed"
  by (simp add: pipeline_defs model_defs schema_defs service_defs example_defs Let_def)

text \<open>
  C7 (amended). The pipeline started by an upload, \<open>processDocumentAsync\<close>, writes the same
  document states and makes the same remote calls whether or not audit writes fail: it
  logs only after the record has been marked failed. In \<open>processDocument\<close> this holds of
  the audit writes of the two failure branches (\<open>ocr_failed\<close>, \<open>ai_parse_failed\<close>): when
  no other audit write is rejected, the document states and remote calls are those of
  the run in which every audit write is accepted. (A rejected \<open>started\<close>,
  \<open>ocr_completed\<close> or \<open>ai_parse_completed\<close> entry is an error of the step it belongs to.)
\<close>

theorem audit_failure_in_failure_branch_harmless:
  "docs (processDocumentAsync env i w)
     = docs (processDocumentAsync (env\<lparr>auditReject := (\<lambda>e. None)\<rparr>) i w)
   \<and> writes (processDocumentAsync env i w)
     = writes (processDocumentAsync (env\<lparr>auditReject := (\<lambda>e. None)\<rparr>) i w)
   \<and> calls (processDocumentAsync env i w)
     = calls (processDocumentAsync (env\<lparr>auditReject := (\<lambda>e. None)\<rparr>) i w)
   \<and> ((\<forall>e. auditReject env e \<noteq> None \<longrightarrow> failureEntry e) \<longrightarrow>
         docs (snd (processDocument env i w))
           = docs (snd (processDocument (env\<lparr>auditReject := (\<lambda>e. None)\<rparr>) i w))
       \<and> writes (snd (processDocument env i w))
           = writes (snd (processDocument (env\<lparr>auditReject := (\<lambda>e. None)\<rparr>) i w))
       \<and> calls (snd (processDocument env i w))
           = calls (snd (processDocument (env\<lparr>auditReject := (\<lambda>e. None)\<rparr>) i w)))"
  using processDocumentAsync_audit_irrelevant [of env i w]
        processDocument_failure_audit_irrelevant [of env i w]
  by blast

theorem audit_failure_in_failure_branch_harmless_witness:
  "auditReject failureAuditDownEnv
     (entry ''d1'' ''a.pdf'' ActReparse
        (Some (JObj [(''stage'', JStr ''ocr_failed''),
                     (''error'', JStr ''timeout of 120000ms exceeded'')])))
     = Some ''audit store down''
   \<and> docs (snd (processDocument failureAuditDownEnv ''d1'' (worldWith freshDoc)))
       = docs (snd (processDocument (failureAuditDownEnv\<lparr>auditReject := (\<lambda>e. None)\<rparr>) ''d1''
                      (worldWith freshDoc)))
   \<and> docs (processDocumentAsync failureAuditDownEnv ''d1'' (worldWith freshDoc))
       = docs (processDocumentAsync (failureAuditDownEnv\<lparr>auditReject := (\<lambda>e. None)\<rparr>) ''d1''
                 (worldWith freshDoc))"
proof -
  have h: "\<forall>e. auditReject failureAuditDownEnv e \<noteq> None \<longrightarrow> failureEntry e"
    by (simp add: failureAuditDownEnv_def)
  have r: "auditReject failureAuditDownEnv
     (entry ''d1'' ''a.pdf'' ActReparse
        (Some (JObj [(''stage'', JStr ''ocr_failed''),
                     (''error'', JStr ''timeout of 120000ms exceeded'')])))
     = Some ''audit store down''"
    by (simp add: failureAuditDownEnv_def failureEntry_def entry_def)
  show ?thesis
    using audit_failure_in_failure_branch_harmless
            [of failureAuditDownEnv "''d1''" "worldWith freshDoc"] h r
    by blast
qed

text \<open>
  C8, as stated, fails: an upload of a file of a type that is not allowed, sent by a user
  without the upload permission, is answered 403, not 400.
\<close>

theorem unauthorised_upload_counterexample:
  "formFile exeForm
     = Some \<lparr>formName = ''a.exe'', formType = ''application/x-msdownload'', formSize = 10\<rparr>
   \<and> \<not> validateFileType exampleUpload ''application/x-msdownload''
   \<and> fst (upload_POST exampleUpload okEnv (Some guest) exeForm (worldWith freshDoc)) = 403"
  by (simp add: route_defs example_defs)

text \<open>
  C8 (amended). An upload whose file has a type outside the allowed set or a size above the
  configured maximum leaves the stores as they were: no record is created, no file is
  stored, no pipeline is started; the response is 400, 401, 403 or 500, and it is 400
  whenever the request passes the permission check and the database is reachable.
\<close>

theorem invalid_upload_rejected:
  assumes "formFile form = Some f"
    and "formType f \<notin> set (allowedFileTypes cfg) \<or> maxFileSize cfg < int (formSize f)"
  shows "snd (upload_POST cfg env user form w) = w
       \<and> fst (upload_POST cfg env user form w) \<in> {400, 401, 403, 500}
       \<and> (requirePermission user canUpload = None \<and> dbError env = None
            \<longrightarrow> fst (upload_POST cfg env user form w) = 400)"
  using assms
  by (auto simp: upload_POST_def requirePermission_def validateFileType_def
                 validateFileSize_def
           split: option.splits)

theorem invalid_upload_rejected_witness:
  "formFile hugeForm
     = Some \<lparr>formName = ''a.pdf'', formType = ''application/pdf'', formSize = 10485761\<rparr>
   \<and> maxFileSize exampleUpload < int 10485761
   \<and> requirePermission (Some admin) canUpload = None
   \<and> dbError okEnv = None
   \<and> upload_POST exampleUpload okEnv (Some admin) hugeForm (worldWith freshDoc)
       = (400, worldWith freshDoc)"
proof -
  have h: "formFile hugeForm
     = Some \<lparr>formName = ''a.pdf'', formType = ''application/pdf'', formSize = 10485761\<rparr>"
    by (simp add: hugeForm_def)
  have g: "formType \<lparr>formName = ''a.pdf'', formType = ''application/pdf'',
                     formSize = 10485761\<rparr> \<notin> set (allowedFileTypes exampleUpload)
           \<or> maxFileSize exampleUpload
               < int (formSize \<lparr>formName = ''a.pdf'', formType = ''application/pdf'',
                                formSize = 10485761\<rparr>)"
    by (simp add: exampleUpload_def)
  have p: "requirePermission (Some admin) canUpload = None" "dbError okEnv = None"
    by (simp_all add: requirePermission_def admin_def okEnv_def)
  from invalid_upload_rejected [OF h g, of okEnv "Some admin" "worldWith freshDoc"] h p
  show ?thesis
    by (simp add: exampleUpload_def prod_eq_iff)
qed










end
